theory Spec2Isabelle
  imports Complex_Main "HOL-Library.Log_Nat" "HOL-Library.Multiset" "HOL-Library.Sublist"
begin

section \<open>Python values used by the formatters\<close>

subsection \<open>Floats\<close>

text \<open>
  A finite Python float is a sign bit, a mantissa and a binary exponent; its value is
  \<open>(-1)\<^sup>s * m * 2\<^sup>e\<close>.  The sign bit is kept apart from the value, so that
  negative zero (\<open>PyFloat True 0 e\<close>) is a float of its own: it compares equal to
  zero and prints with a minus sign.  The stored columns are finite measurements;
  infinities and NaN are not modelled.
\<close>

datatype pyfloat = PyFloat (negative: bool) (mantissa: nat) (exponent: int)

definition pow2 :: "int \<Rightarrow> rat" where
  "pow2 k = (if 0 \<le> k then 2 ^ nat k else 1 / 2 ^ nat (- k))"

definition pow10 :: "int \<Rightarrow> rat" where
  "pow10 k = (if 0 \<le> k then 10 ^ nat k else 1 / 10 ^ nat (- k))"

definition magnitude :: "pyfloat \<Rightarrow> rat" where
  "magnitude x = of_nat (mantissa x) * pow2 (exponent x)"

definition float_val :: "pyfloat \<Rightarrow> rat" where
  "float_val x = (if negative x then - magnitude x else magnitude x)"

text \<open>Comparisons of Python floats (\<open><\<close>, \<open>>=\<close>, \<open>!=\<close>) compare the values.\<close>

definition float_lt :: "pyfloat \<Rightarrow> rat \<Rightarrow> bool" where
  "float_lt x c = (float_val x < c)"

definition float_ge :: "pyfloat \<Rightarrow> rat \<Rightarrow> bool" where
  "float_ge x c = (c \<le> float_val x)"

subsection \<open>Decimal digits\<close>

definition digit_char :: "nat \<Rightarrow> char" where
  "digit_char d = ''0123456789'' ! d"

fun str_nat :: "nat \<Rightarrow> string" where
  "str_nat n = (if n < 10 then [digit_char n] else str_nat (n div 10) @ [digit_char (n mod 10)])"

declare str_nat.simps [simp del]

text \<open>\<open>str(i)\<close> for a Python int.\<close>

definition str_int :: "int \<Rightarrow> string" where
  "str_int i = (if i < 0 then ''-'' @ str_nat (nat (- i)) else str_nat (nat i))"

subsection \<open>The format specification \<open>W.2f\<close>\<close>

text \<open>
  \<open>f"{x:W.2f}"\<close> rounds the exact value of \<open>x\<close> to two decimals, ties to even,
  writes the sign when the sign bit is set (also when the digits are all zero), and
  pads the text on the left with spaces up to the minimum field width \<open>W\<close>.
\<close>

definition round_half_even :: "rat \<Rightarrow> nat" where
  "round_half_even t =
     (let q = nat \<lfloor>t\<rfloor>; r = t - of_nat q
      in if 1 / 2 < r \<or> (r = 1 / 2 \<and> odd q) then q + 1 else q)"

definition fixed2 :: "pyfloat \<Rightarrow> string" where
  "fixed2 x =
     (let q = round_half_even (magnitude x * 100)
      in (if negative x then ''-'' else '''') @ str_nat (q div 100) @ ''.'' @
         [digit_char (q mod 100 div 10), digit_char (q mod 10)])"

definition pad_left :: "nat \<Rightarrow> string \<Rightarrow> string" where
  "pad_left w s = replicate (w - length s) CHR '' '' @ s"

definition format_2f :: "nat \<Rightarrow> pyfloat \<Rightarrow> string" where
  "format_2f w x = pad_left w (fixed2 x)"

subsection \<open>\<open>str\<close> of a float\<close>

text \<open>
  \<open>f"{x}"\<close> of a float is \<open>repr(x)\<close>: the shortest decimal digit string that
  reads back as the same double (nearest to the value among the shortest, ties to the
  even digit), laid out in positional notation when the decimal point falls within
  \<open>-4 < decpt \<le> 16\<close> and in exponent notation otherwise.
\<close>

text \<open>
  The position \<open>p\<close> of the decimal point of a non-zero magnitude \<open>v\<close>:
  \<open>10\<^sup>p\<^sup>-\<^sup>1 \<le> v < 10\<^sup>p\<close>.  With \<open>v = n / d\<close>, the numbers of decimal digits of \<open>n\<close>
  and of \<open>d\<close> give it up to one.
\<close>

definition decimal_point :: "pyfloat \<Rightarrow> int" where
  "decimal_point x =
     (let n = (if 0 \<le> exponent x then mantissa x * 2 ^ nat (exponent x) else mantissa x);
          d = (if 0 \<le> exponent x then 1 else 2 ^ nat (- exponent x));
          a = int (floorlog 10 n) - int (floorlog 10 d)
      in if pow10 a \<le> magnitude x then a + 1 else a)"

text \<open>
  The binary exponent of the unit in the last place of a double of magnitude
  \<open>m * 2\<^sup>e\<close>: 53 significant bits, and no exponent below \<open>-1074\<close>.
\<close>

definition ulp_exponent :: "pyfloat \<Rightarrow> int" where
  "ulp_exponent x = max (exponent x + int (floorlog 2 (mantissa x)) - 53) (- 1074)"

text \<open>
  A decimal \<open>y\<close> reads back as \<open>x\<close> when it lies within half a unit in the last
  place of \<open>x\<close>; below a power of two the gap to the next double is half as wide;
  the end points read back as \<open>x\<close> when the significand of \<open>x\<close> is even.
\<close>

definition reads_back :: "pyfloat \<Rightarrow> rat \<Rightarrow> bool" where
  "reads_back x y =
     (let v = magnitude x; u = ulp_exponent x;
          hi = pow2 (u - 1);
          lo = (if v = pow2 (u + 52) \<and> - 1074 < u then pow2 (u - 2) else pow2 (u - 1))
      in if even (nat \<lfloor>v / pow2 u\<rfloor>) then v - lo \<le> y \<and> y \<le> v + hi
         else v - lo < y \<and> y < v + hi)"

text \<open>The best multiple of \<open>10\<^sup>p\<close> that reads back as \<open>x\<close>, when there is one.\<close>

definition candidate :: "pyfloat \<Rightarrow> int \<Rightarrow> nat option" where
  "candidate x p =
     (let t = magnitude x / pow10 p;
          c0 = nat \<lfloor>t\<rfloor>; c1 = c0 + 1;
          ok0 = reads_back x (of_nat c0 * pow10 p);
          ok1 = reads_back x (of_nat c1 * pow10 p)
      in if ok0 \<and> ok1 then
           (if t - of_nat c0 < of_nat c1 - t then Some c0
            else if of_nat c1 - t < t - of_nat c0 then Some c1
            else if even c0 then Some c0 else Some c1)
         else if ok0 then Some c0
         else if ok1 then Some c1
         else None)"

fun first_candidate :: "pyfloat \<Rightarrow> int \<Rightarrow> nat list \<Rightarrow> (nat \<times> int) option" where
  "first_candidate x d [] = None"
| "first_candidate x d (k # ks) =
     (case candidate x (d - int k) of
        Some c \<Rightarrow> Some (c, d - int k)
      | None \<Rightarrow> first_candidate x d ks)"

definition strip_zeros :: "string \<Rightarrow> string" where
  "strip_zeros ds = rev (dropWhile (\<lambda>c. c = CHR ''0'') (rev ds))"

text \<open>
  The digits and the decimal point of the shortest representation, for a non-zero
  \<open>x\<close>.  Seventeen digits identify every double, so the last alternative is only
  taken for a mantissa of more than 53 bits, which no double has.
\<close>

definition shortest :: "pyfloat \<Rightarrow> string \<times> int" where
  "shortest x =
     (let d = decimal_point x;
          (c, p) = (case first_candidate x d [1..<18] of
                      Some cp \<Rightarrow> cp
                    | None \<Rightarrow> (nat \<lfloor>magnitude x / pow10 (d - 17)\<rfloor>, d - 17));
          ds = str_nat c
      in (strip_zeros ds, p + int (length ds)))"

definition exp_str :: "int \<Rightarrow> string" where
  "exp_str e =
     (if e < 0 then ''-'' else ''+'') @ (if \<bar>e\<bar> < 10 then ''0'' else '''') @ str_nat (nat \<bar>e\<bar>)"

definition float_repr :: "pyfloat \<Rightarrow> string" where
  "float_repr x =
     (if negative x then ''-'' else '''') @
     (if mantissa x = 0 then ''0.0''
      else
        let (ds, decpt) = shortest x; n = int (length ds)
        in if decpt \<le> - 4 \<or> 16 < decpt then
             take 1 ds @ (if 1 < n then ''.'' @ drop 1 ds else '''') @ ''e'' @ exp_str (decpt - 1)
           else if decpt \<le> 0 then ''0.'' @ replicate (nat (- decpt)) CHR ''0'' @ ds
           else if n \<le> decpt then ds @ replicate (nat (decpt - n)) CHR ''0'' @ ''.0''
           else take (nat decpt) ds @ ''.'' @ drop (nat decpt) ds)"

subsection \<open>Joining lines\<close>

text \<open>\<open>sep.join(lines)\<close>.\<close>

fun join :: "string \<Rightarrow> string list \<Rightarrow> string" where
  "join sep [] = []"
| "join sep [l] = l"
| "join sep (l # l' # ls) = l @ sep @ join sep (l' # ls)"

definition newline :: string where
  "newline = [CHR 0x0A]"

section \<open>Stored rows\<close>

text \<open>A row of the table of 1D models (class \<open>VelocityModel1D\<close>).\<close>

record velocity_model_1d =
  row_id :: int
  depth :: pyfloat
  velocity :: pyfloat
  wave_type :: string
  nfo :: string
  author :: string

text \<open>
  The two tables of 3D models have the same columns, except that the velocity column
  is the attribute \<open>vp\<close> of class \<open>VelocityModel3D_VP\<close> and the attribute \<open>vs\<close> of
  class \<open>VelocityModel3D_VS\<close>.  The column \<open>r\<close> is nullable.
\<close>

record grid_columns =
  grid_id :: int
  longitude :: pyfloat
  latitude :: pyfloat
  grid_depth :: pyfloat
  wave_velocity :: pyfloat
  r :: "pyfloat option"
  grid_nfo :: string
  grid_author :: string

datatype velocity_model_3d =
  VelocityModel3D_VP grid_columns
| VelocityModel3D_VS grid_columns

fun columns :: "velocity_model_3d \<Rightarrow> grid_columns" where
  "columns (VelocityModel3D_VP c) = c"
| "columns (VelocityModel3D_VS c) = c"

datatype py_error = AttributeError

text \<open>Reading an attribute that the object's class does not have raises.\<close>

fun vp :: "velocity_model_3d \<Rightarrow> py_error + pyfloat" where
  "vp (VelocityModel3D_VP c) = Inr (wave_velocity c)"
| "vp (VelocityModel3D_VS c) = Inl AttributeError"

fun vs :: "velocity_model_3d \<Rightarrow> py_error + pyfloat" where
  "vs (VelocityModel3D_VS c) = Inr (wave_velocity c)"
| "vs (VelocityModel3D_VP c) = Inl AttributeError"

section \<open>The lines shared by both formatters\<close>

text \<open>The title line: \<open>f"{kind} {nfo} {bibref}"\<close> if \<open>bibref\<close> is non-empty, else \<open>f"{kind} {nfo}"\<close>.\<close>

definition title_line :: "string \<Rightarrow> string \<Rightarrow> string \<Rightarrow> string" where
  "title_line kind nfo' bibref =
     (if bibref \<noteq> [] then kind @ '' '' @ nfo' @ '' '' @ bibref else kind @ '' '' @ nfo')"

definition showing_line :: "nat \<Rightarrow> int \<Rightarrow> int \<Rightarrow> int \<Rightarrow> string" where
  "showing_line len total_count offset limit =
     ''# Showing '' @ str_int (offset + 1) @ ''-'' @ str_int (offset + int len) @
     '' of '' @ str_int total_count @ '' records (limit='' @ str_int limit @
     '', offset='' @ str_int offset @ '')''"

text \<open>\<open>if total_count > len(models): lines.append(...)\<close>\<close>

definition pagination_lines :: "nat \<Rightarrow> int \<Rightarrow> int \<Rightarrow> int \<Rightarrow> string list" where
  "pagination_lines len total_count offset limit =
     (if int len < total_count then [showing_line len total_count offset limit] else [])"

section \<open>\<open>create_text_response_1d\<close>\<close>

text \<open>
  One body line.  The source writes the loop body twice, once for the VP section and
  once for the VS section; the two copies differ in the letter of the phase only.
\<close>

definition velocity_line :: "string \<Rightarrow> nat \<Rightarrow> velocity_model_1d \<Rightarrow> string" where
  "velocity_line phase i model =
     (let vel_str = format_2f 4 (velocity model);
          (depth_str, spacing) =
            (if float_lt (depth model) 0 then (format_2f 5 (depth model), ''       '')
             else if float_ge (depth model) 10 then (format_2f 5 (depth model), ''       '')
             else (format_2f 4 (depth model), ''        ''))
      in if i = 0 then
           '' '' @ vel_str @ spacing @ depth_str @ ''   001.000'' @ ''           '' @ phase @ ''-VELOCITY MODEL''
         else '' '' @ vel_str @ spacing @ depth_str @ ''   001.000'')"

text \<open>\<open>for i, model in enumerate(models): lines.append(...)\<close>, from index \<open>i\<close> on.\<close>

fun velocity_lines :: "string \<Rightarrow> nat \<Rightarrow> velocity_model_1d list \<Rightarrow> string list" where
  "velocity_lines phase i [] = []"
| "velocity_lines phase i (model # models) =
     velocity_line phase i model # velocity_lines phase (Suc i) models"

definition vp_count_line :: "nat \<Rightarrow> string" where
  "vp_count_line n = '' '' @ str_nat n @ ''        vel,depth,vdamp,phase (f5.2,5x,f7.2,2x,f7.3,3x,a1)''"

definition vs_count_line :: "nat \<Rightarrow> string" where
  "vs_count_line n = '' '' @ str_nat n"

definition vp_section :: "velocity_model_1d list \<Rightarrow> string list" where
  "vp_section vp_models =
     (if vp_models \<noteq> [] then
        vp_count_line (length vp_models) # velocity_lines ''P'' 0 vp_models
      else [])"

definition vs_section :: "velocity_model_1d list \<Rightarrow> string list" where
  "vs_section vs_models =
     (if vs_models \<noteq> [] then
        vs_count_line (length vs_models) # velocity_lines ''S'' 0 vs_models
      else [])"

text \<open>
  The list \<open>lines\<close> at the \<open>return\<close>, from the (non-empty) input list and the two
  sorted sublists.
\<close>

definition lines_1d ::
  "velocity_model_1d list \<Rightarrow> velocity_model_1d list \<Rightarrow> velocity_model_1d list \<Rightarrow>
   string \<Rightarrow> int \<Rightarrow> int \<Rightarrow> int \<Rightarrow> string list" where
  "lines_1d models vp_models vs_models bibref total_count offset limit =
     title_line ''1D'' (nfo (hd models)) bibref #
     pagination_lines (length models) total_count offset limit @
     vp_section vp_models @
     vs_section vs_models"

text \<open>\<open>xs.sort(key=lambda x: x.depth)\<close>: a stable sort on the value of the depth.\<close>

definition sort_by_depth :: "velocity_model_1d list \<Rightarrow> velocity_model_1d list" where
  "sort_by_depth xs = sort_key (\<lambda>x. float_val (depth x)) xs"

definition vp_models :: "velocity_model_1d list \<Rightarrow> velocity_model_1d list" where
  "vp_models models = sort_by_depth [m \<leftarrow> models. wave_type m = ''VP'']"

definition vs_models :: "velocity_model_1d list \<Rightarrow> velocity_model_1d list" where
  "vs_models models = sort_by_depth [m \<leftarrow> models. wave_type m = ''VS'']"

definition text_lines_1d ::
  "velocity_model_1d list \<Rightarrow> string \<Rightarrow> int \<Rightarrow> int \<Rightarrow> int \<Rightarrow> string list" where
  "text_lines_1d models bibref total_count offset limit =
     lines_1d models (vp_models models) (vs_models models) bibref total_count offset limit"

definition create_text_response_1d ::
  "velocity_model_1d list \<Rightarrow> string \<Rightarrow> int \<Rightarrow> int \<Rightarrow> int \<Rightarrow> string" where
  "create_text_response_1d models bibref total_count offset limit =
     (if models = [] then ''''
      else join newline (text_lines_1d models bibref total_count offset limit))"

section \<open>\<open>create_text_response_3d\<close>\<close>

text \<open>\<open>model.r != 1.0\<close>: \<open>None\<close> is not equal to any float.\<close>

fun ne_1 :: "pyfloat option \<Rightarrow> bool" where
  "ne_1 None = True"
| "ne_1 (Some x) = (float_val x \<noteq> 1)"

definition has_non_default_r :: "velocity_model_3d list \<Rightarrow> bool" where
  "has_non_default_r models = list_ex (\<lambda>model. ne_1 (r (columns model))) models"

text \<open>The float literal \<open>1.0\<close>.\<close>

definition float_1 :: pyfloat where
  "float_1 = PyFloat False 1 0"

definition header_3d :: "string \<Rightarrow> bool \<Rightarrow> string" where
  "header_3d wave_type' show_r =
     (if show_r then
        ''Longitude|Latitude|Depth|'' @ (if wave_type' = ''VP'' then ''Vp'' else ''Vs'') @ ''|R''
      else ''Longitude|Latitude|Depth|'' @ (if wave_type' = ''VP'' then ''Vp'' else ''Vs''))"

text \<open>The body of the loop over the rows: the line appended, or the exception raised.\<close>

definition row_3d :: "string \<Rightarrow> bool \<Rightarrow> velocity_model_3d \<Rightarrow> py_error + string" where
  "row_3d wave_type' show_r model =
     (case (if wave_type' = ''VP'' then vp model else vs model) of
        Inl e \<Rightarrow> Inl e
      | Inr velocity' \<Rightarrow>
          (if show_r then
             let r_value = (case r (columns model) of Some x \<Rightarrow> x | None \<Rightarrow> float_1)
             in Inr (float_repr (longitude (columns model)) @ ''|'' @
                     float_repr (latitude (columns model)) @ ''|'' @
                     float_repr (grid_depth (columns model)) @ ''|'' @
                     float_repr velocity' @ ''|'' @ float_repr r_value)
           else
             Inr (float_repr (longitude (columns model)) @ ''|'' @
                  float_repr (latitude (columns model)) @ ''|'' @
                  float_repr (grid_depth (columns model)) @ ''|'' @
                  float_repr velocity')))"

fun rows_3d :: "string \<Rightarrow> bool \<Rightarrow> velocity_model_3d list \<Rightarrow> py_error + string list" where
  "rows_3d wave_type' show_r [] = Inr []"
| "rows_3d wave_type' show_r (model # models) =
     (case row_3d wave_type' show_r model of
        Inl e \<Rightarrow> Inl e
      | Inr l \<Rightarrow>
          (case rows_3d wave_type' show_r models of
             Inl e \<Rightarrow> Inl e
           | Inr ls \<Rightarrow> Inr (l # ls)))"

text \<open>The list \<open>lines\<close> at the \<open>return\<close>, for a non-empty input list.\<close>

definition text_lines_3d ::
  "velocity_model_3d list \<Rightarrow> string \<Rightarrow> bool \<Rightarrow> string \<Rightarrow> int \<Rightarrow> int \<Rightarrow> int \<Rightarrow>
   py_error + string list" where
  "text_lines_3d models wave_type' include_r bibref total_count offset limit =
     (let show_r = (include_r \<and> has_non_default_r models)
      in case rows_3d wave_type' show_r models of
           Inl e \<Rightarrow> Inl e
         | Inr ls \<Rightarrow>
             Inr (title_line ''3D'' (grid_nfo (columns (hd models))) bibref #
                  pagination_lines (length models) total_count offset limit @
                  [header_3d wave_type' show_r] @ ls))"

definition create_text_response_3d ::
  "velocity_model_3d list \<Rightarrow> string \<Rightarrow> bool \<Rightarrow> string \<Rightarrow> int \<Rightarrow> int \<Rightarrow> int \<Rightarrow>
   py_error + string" where
  "create_text_response_3d models wave_type' include_r bibref total_count offset limit =
     (if models = [] then Inr ''''
      else case text_lines_3d models wave_type' include_r bibref total_count offset limit of
             Inl e \<Rightarrow> Inl e
           | Inr ls \<Rightarrow> Inr (join newline ls))"

section \<open>The formatters on the object store\<close>

text \<open>
  The argument \<open>models\<close> is a reference to a list object, which holds references to
  row objects.  The store keeps the list objects and the row objects, each addressed
  by its index.  The list \<open>lines\<close> holds strings only and stays a local value.
\<close>

record 'a store =
  list_objs :: "nat list list"
  row_objs :: "'a list"

text \<open>A list comprehension allocates a new list object.\<close>

definition new_list :: "nat list \<Rightarrow> 'a store \<Rightarrow> nat \<times> 'a store" where
  "new_list refs h = (length (list_objs h), h\<lparr>list_objs := list_objs h @ [refs]\<rparr>)"

text \<open>\<open>xs.sort(key=...)\<close> reorders the list object \<open>xs\<close> in place.\<close>

definition list_sort :: "('a \<Rightarrow> rat) \<Rightarrow> nat \<Rightarrow> 'a store \<Rightarrow> 'a store" where
  "list_sort key xs h =
     h\<lparr>list_objs := (list_objs h)[xs := sort_key (\<lambda>i. key (row_objs h ! i)) (list_objs h ! xs)]\<rparr>"

definition rows_of :: "'a store \<Rightarrow> nat \<Rightarrow> 'a list" where
  "rows_of h xs = map (\<lambda>i. row_objs h ! i) (list_objs h ! xs)"

definition valid_list :: "'a store \<Rightarrow> nat \<Rightarrow> bool" where
  "valid_list h xs =
     (xs < length (list_objs h) \<and> list_all (\<lambda>i. i < length (row_objs h)) (list_objs h ! xs))"

definition create_text_response_1d_store ::
  "velocity_model_1d store \<Rightarrow> nat \<Rightarrow> string \<Rightarrow> int \<Rightarrow> int \<Rightarrow> int \<Rightarrow>
   string \<times> velocity_model_1d store" where
  "create_text_response_1d_store h models bibref total_count offset limit =
     (if list_objs h ! models = [] then ('''', h)
      else
        let (vp_ref, h1) =
              new_list [m \<leftarrow> list_objs h ! models. wave_type (row_objs h ! m) = ''VP''] h;
            (vs_ref, h2) =
              new_list [m \<leftarrow> list_objs h1 ! models. wave_type (row_objs h1 ! m) = ''VS''] h1;
            h3 = list_sort (\<lambda>x. float_val (depth x)) vp_ref h2;
            h4 = list_sort (\<lambda>x. float_val (depth x)) vs_ref h3
        in (join newline
              (lines_1d (rows_of h4 models) (rows_of h4 vp_ref) (rows_of h4 vs_ref)
                 bibref total_count offset limit),
            h4))"

text \<open>\<open>create_text_response_3d\<close> allocates no list but \<open>lines\<close> and has no assignment
  to an attribute or to an element of \<open>models\<close>: it only reads the store.\<close>

definition create_text_response_3d_store ::
  "velocity_model_3d store \<Rightarrow> nat \<Rightarrow> string \<Rightarrow> bool \<Rightarrow> string \<Rightarrow> int \<Rightarrow> int \<Rightarrow> int \<Rightarrow>
   (py_error + string) \<times> velocity_model_3d store" where
  "create_text_response_3d_store h models wave_type' include_r bibref total_count offset limit =
     (create_text_response_3d (rows_of h models) wave_type' include_r bibref total_count offset limit,
      h)"
section \<open>Auxiliary notions for the statements\<close>

text \<open>The characters that occur in the text of a float.\<close>

definition float_chars :: "char set" where
  "float_chars = set ''0123456789.-+e''"

text \<open>
  The row object has the velocity attribute that the wave type selects, so that
  reading it does not raise.
\<close>

definition has_velocity :: "string \<Rightarrow> velocity_model_3d \<Rightarrow> bool" where
  "has_velocity wave_type' model =
     (case (if wave_type' = ''VP'' then vp model else vs model) of
        Inr _ \<Rightarrow> True
      | Inl _ \<Rightarrow> False)"

text \<open>The line that the loop appends for such a row.\<close>

definition fields_3d :: "string \<Rightarrow> bool \<Rightarrow> velocity_model_3d \<Rightarrow> string" where
  "fields_3d wave_type' show_r model =
     float_repr (longitude (columns model)) @ ''|'' @
     float_repr (latitude (columns model)) @ ''|'' @
     float_repr (grid_depth (columns model)) @ ''|'' @
     float_repr (wave_velocity (columns model)) @
     (if show_r then
        ''|'' @ float_repr (case r (columns model) of Some x \<Rightarrow> x | None \<Rightarrow> float_1)
      else '''')"

section \<open>Example rows\<close>

definition row_1d :: "pyfloat \<Rightarrow> pyfloat \<Rightarrow> string \<Rightarrow> velocity_model_1d" where
  "row_1d d v w =
     \<lparr>row_id = 1, depth = d, velocity = v, wave_type = w, nfo = ''CRUST1'', author = ''Kim''\<rparr>"

text \<open>The double nearest to \<open>5.8\<close>.\<close>

definition float_5_8 :: pyfloat where
  "float_5_8 = PyFloat False 6530219459687219 (- 50)"

definition grid_row :: "pyfloat \<Rightarrow> pyfloat option \<Rightarrow> grid_columns" where
  "grid_row lon rr =
     \<lparr>grid_id = 1, longitude = lon, latitude = PyFloat False 47 (- 1),
      grid_depth = PyFloat False 0 0, wave_velocity = PyFloat False 29 (- 2), r = rr,
      grid_nfo = ''ak135'', grid_author = ''Kim''\<rparr>"

section \<open>Evaluation on concrete rows\<close>

lemma floor_rat_numeral_div: "\<lfloor>(numeral a :: rat) / numeral b\<rfloor> = numeral a div numeral b"
  using floor_divide_of_int_eq [of "numeral a" "numeral b", where ?'a = rat] by simp

lemmas eval_fmt = format_2f_def pad_left_def fixed2_def round_half_even_def magnitude_def
  pow2_def str_nat.simps digit_char_def Let_def floor_rat_numeral_div

lemmas eval_1d = row_1d_def float_5_8_def vp_models_def vs_models_def sort_by_depth_def
  float_val_def float_lt_def float_ge_def

lemmas eval_lines_1d = create_text_response_1d_def text_lines_1d_def lines_1d_def
  vp_section_def vs_section_def vp_count_line_def vs_count_line_def title_line_def
  pagination_lines_def showing_line_def str_int_def newline_def velocity_line_def

section \<open>Decimal digits\<close>

lemma digit_char_in: "d < 10 \<Longrightarrow> digit_char d \<in> set ''0123456789''"
  unfolding digit_char_def by (rule nth_mem) simp

lemma str_nat_digits: "set (str_nat n) \<subseteq> set ''0123456789''"
proof (induction n rule: str_nat.induct)
  case (1 n)
  show ?case
  proof (cases "n < 10")
    case True
    then show ?thesis using digit_char_in [of n] by (subst str_nat.simps) simp
  next
    case False
    have "n mod 10 < 10" by simp
    from digit_char_in [OF this] "1" [OF False] False show ?thesis
      by (subst str_nat.simps) simp
  qed
qed




section \<open>The lines of the 1D response\<close>

lemma velocity_lines_nth:
  "velocity_lines phase i ms = map (\<lambda>j. velocity_line phase (i + j) (ms ! j)) [0..<length ms]"
proof (induction ms arbitrary: i)
  case Nil
  show ?case by simp
next
  case (Cons m ms)
  have "map (\<lambda>j. velocity_line phase (i + j) ((m # ms) ! j)) [0..<length (m # ms)] =
        velocity_line phase i m # map (\<lambda>j. velocity_line phase (Suc i + j) (ms ! j)) [0..<length ms]"
    by (simp add: upt_conv_Cons map_Suc_upt [symmetric] del: upt_Suc)
  with Cons show ?case by simp
qed

lemma vp_section_nth:
  "vp_section ms = (if ms = [] then []
     else vp_count_line (length ms) # map (\<lambda>j. velocity_line ''P'' j (ms ! j)) [0..<length ms])"
  by (simp add: vp_section_def velocity_lines_nth)

lemma vs_section_nth:
  "vs_section ms = (if ms = [] then []
     else vs_count_line (length ms) # map (\<lambda>j. velocity_line ''S'' j (ms ! j)) [0..<length ms])"
  by (simp add: vs_section_def velocity_lines_nth)

lemma text_lines_1d_nth:
  "text_lines_1d models bibref total_count offset limit =
     title_line ''1D'' (nfo (hd models)) bibref #
     pagination_lines (length models) total_count offset limit @
     (if vp_models models = [] then []
      else vp_count_line (length (vp_models models)) #
           map (\<lambda>j. velocity_line ''P'' j (vp_models models ! j)) [0..<length (vp_models models)]) @
     (if vs_models models = [] then []
      else vs_count_line (length (vs_models models)) #
           map (\<lambda>j. velocity_line ''S'' j (vs_models models ! j)) [0..<length (vs_models models)])"
  unfolding text_lines_1d_def lines_1d_def by (simp only: vp_section_nth vs_section_nth)
















lemma partition_general:
  "mset (vp_models models) + mset (vs_models models) =
     mset [m \<leftarrow> models. wave_type m = ''VP'' \<or> wave_type m = ''VS'']"
  unfolding vp_models_def vs_models_def sort_by_depth_def
  by (induction models) auto




section \<open>The text of a float\<close>

lemma strip_zeros_subset: "set (strip_zeros ds) \<subseteq> set ds"
  unfolding strip_zeros_def using set_dropWhileD [of _ "\<lambda>c. c = CHR ''0''" "rev ds"] by auto

lemma shortest_digits: "set (fst (shortest x)) \<subseteq> set ''0123456789''"
proof -
  have "set (strip_zeros (str_nat c)) \<subseteq> set ''0123456789''" for c
    using strip_zeros_subset [of "str_nat c"] str_nat_digits [of c] by (rule subset_trans)
  then show ?thesis
    by (simp add: shortest_def Let_def split: prod.splits option.splits)
qed

lemma digits_float_chars: "set ''0123456789'' \<subseteq> float_chars"
  by (simp add: float_chars_def)

lemma float_chars_mem:
  "CHR ''0'' \<in> float_chars" "CHR ''.'' \<in> float_chars" "CHR ''-'' \<in> float_chars"
  "CHR ''+'' \<in> float_chars" "CHR ''e'' \<in> float_chars"
  by (simp_all add: float_chars_def)

lemma exp_str_chars: "set (exp_str e) \<subseteq> float_chars"
proof -
  have "set (str_nat (nat \<bar>e\<bar>)) \<subseteq> float_chars"
    using str_nat_digits digits_float_chars by (rule subset_trans)
  then show ?thesis by (auto simp: exp_str_def float_chars_mem)
qed

lemma float_repr_chars: "set (float_repr x) \<subseteq> float_chars"
proof -
  obtain ds decpt where s: "shortest x = (ds, decpt)" by (cases "shortest x")
  with shortest_digits [of x] have "set ds \<subseteq> set ''0123456789''" by simp
  then have ds: "set ds \<subseteq> float_chars" using digits_float_chars by (rule subset_trans)
  have t: "set (take n ds) \<subseteq> float_chars" for n
    using set_take_subset [of n ds] ds by (rule subset_trans)
  have d: "set (drop n ds) \<subseteq> float_chars" for n
    using set_drop_subset [of n ds] ds by (rule subset_trans)
  note e = exp_str_chars [of "decpt - 1"]
  have sign: "set (if negative x then ''-'' else '''') \<subseteq> float_chars"
    by (auto simp: float_chars_mem)
  have expo: "set (take 1 ds @ (if 1 < int (length ds) then ''.'' @ drop 1 ds else '''') @
                   ''e'' @ exp_str (decpt - 1)) \<subseteq> float_chars"
    using t [of 1] d [of 1] e by (auto simp: float_chars_mem)
  have small: "set (''0.'' @ replicate (nat (- decpt)) CHR ''0'' @ ds) \<subseteq> float_chars"
    using ds by (simp add: float_chars_mem subset_iff)
  have whole: "set (ds @ replicate (nat (decpt - int (length ds))) CHR ''0'' @ ''.0'') \<subseteq> float_chars"
    using ds by (simp add: float_chars_mem subset_iff)
  have mixed: "set (take (nat decpt) ds @ ''.'' @ drop (nat decpt) ds) \<subseteq> float_chars"
    using t [of "nat decpt"] d [of "nat decpt"] by (simp add: float_chars_mem)
  have zero: "set ''0.0'' \<subseteq> float_chars" by (simp add: float_chars_mem)
  have body: "set (if mantissa x = 0 then ''0.0''
      else
        let (ds, decpt) = shortest x; n = int (length ds)
        in if decpt \<le> - 4 \<or> 16 < decpt then
             take 1 ds @ (if 1 < n then ''.'' @ drop 1 ds else '''') @ ''e'' @ exp_str (decpt - 1)
           else if decpt \<le> 0 then ''0.'' @ replicate (nat (- decpt)) CHR ''0'' @ ds
           else if n \<le> decpt then ds @ replicate (nat (decpt - n)) CHR ''0'' @ ''.0''
           else take (nat decpt) ds @ ''.'' @ drop (nat decpt) ds) \<subseteq> float_chars"
    unfolding s Let_def prod.case using expo small whole mixed zero by presburger
  show ?thesis
    unfolding float_repr_def using sign body by (simp only: set_append Un_subset_iff)
qed

lemma float_repr_no_pipe: "count_list (float_repr x) CHR ''|'' = 0"
  using float_repr_chars [of x] by (auto simp: count_list_0_iff float_chars_def)


lemma count_range:
  "[Suc 0..<18] = [1, 2, 3, 4, 5, 6, 7, 8, 9, 10, 11, 12, 13, 14, 15, 16, 17]"
  by (simp add: upt_rec)

lemmas eval_repr = count_range float_repr_def shortest_def decimal_point_def candidate_def reads_back_def
  ulp_exponent_def first_candidate.simps strip_zeros_def exp_str_def pow10_def pow2_def
  magnitude_def str_nat.simps digit_char_def Let_def floor_rat_numeral_div compute_floorlog

lemma float_1_repr: "float_repr float_1 = ''1.0''"
  by (simp add: float_1_def eval_repr)

lemma float_repr_examples:
  "float_repr (PyFloat False 1 0) = ''1.0''"
  "float_repr (PyFloat True 5 0) = ''-5.0''"
  "float_repr (PyFloat False 47 (- 1)) = ''23.5''"
  "float_repr (PyFloat False 0 0) = ''0.0''"
  "float_repr (PyFloat False 29 (- 2)) = ''7.25''"
  "float_repr (PyFloat False 1 (- 1)) = ''0.5''"
  "float_repr (PyFloat False (Suc 0) 0) = ''1.0''"
  "float_repr (PyFloat False (Suc 0) (- 1)) = ''0.5''"
  by (simp_all add: eval_repr)

section \<open>The lines of the 3D response\<close>

lemma has_velocity_read:
  "has_velocity wt m \<Longrightarrow> (if wt = ''VP'' then vp m else vs m) = Inr (wave_velocity (columns m))"
  by (cases m) (auto simp: has_velocity_def split: if_splits)

lemma row_3d_fields: "has_velocity wt m \<Longrightarrow> row_3d wt s m = Inr (fields_3d wt s m)"
  by (simp add: row_3d_def has_velocity_read fields_3d_def Let_def)

lemma rows_3d_fields:
  "list_all (has_velocity wt) ms \<Longrightarrow> rows_3d wt s ms = Inr (map (fields_3d wt s) ms)"
  by (induction ms) (simp_all add: row_3d_fields)

lemma fields_3d_pipes: "count_list (fields_3d wt s m) CHR ''|'' = (if s then 4 else 3)"
  by (simp add: fields_3d_def float_repr_no_pipe)


lemma has_non_default_r_iff:
  "has_non_default_r models =
     (\<exists>m \<in> set models. case r (columns m) of None \<Rightarrow> True | Some x \<Rightarrow> float_val x \<noteq> 1)"
proof -
  have "ne_1 v = (case v of None \<Rightarrow> True | Some x \<Rightarrow> float_val x \<noteq> 1)" for v
    by (cases v) simp_all
  then show ?thesis by (simp add: has_non_default_r_def list_ex_iff)
qed

lemma header_3d_eq:
  "header_3d wt s =
     ''Longitude|Latitude|Depth|'' @ (if wt = ''VP'' then ''Vp'' else ''Vs'') @
     (if s then ''|R'' else '''')"
  by (simp add: header_3d_def)

lemma text_lines_3d_fields:
  "list_all (has_velocity wt) models \<Longrightarrow>
   text_lines_3d models wt include_r bibref total_count offset limit =
     Inr (title_line ''3D'' (grid_nfo (columns (hd models))) bibref #
          pagination_lines (length models) total_count offset limit @
          header_3d wt (include_r \<and> has_non_default_r models) #
          map (fields_3d wt (include_r \<and> has_non_default_r models)) models)"
  by (simp add: text_lines_3d_def rows_3d_fields Let_def)

lemma create_text_response_3d_fields:
  "models \<noteq> [] \<Longrightarrow> list_all (has_velocity wt) models \<Longrightarrow>
   create_text_response_3d models wt include_r bibref total_count offset limit =
     Inr (join newline
       (title_line ''3D'' (grid_nfo (columns (hd models))) bibref #
        pagination_lines (length models) total_count offset limit @
        header_3d wt (include_r \<and> has_non_default_r models) #
        map (fields_3d wt (include_r \<and> has_non_default_r models)) models))"
  by (simp add: create_text_response_3d_def text_lines_3d_fields)

lemma create_text_response_3d_header_R:
  assumes "models \<noteq> []" and "list_all (has_velocity wt) models"
    and "i < length models" and "r (columns (models ! i)) = None"
  shows "create_text_response_3d models wt True bibref total_count offset limit =
       Inr (join newline
         (title_line ''3D'' (grid_nfo (columns (hd models))) bibref #
          pagination_lines (length models) total_count offset limit @
          header_3d wt True # map (fields_3d wt True) models))"
proof -
  from assms(3) have "models ! i \<in> set models" by simp
  with assms(4) have "has_non_default_r models"
    unfolding has_non_default_r_iff by (intro bexI [of _ "models ! i"]) simp_all
  then show ?thesis using create_text_response_3d_fields [OF assms(1,2), of True] by simp
qed

lemmas eval_lines_3d = create_text_response_3d_def text_lines_3d_def rows_3d.simps row_3d_def
  has_non_default_r_def header_3d_def title_line_def pagination_lines_def showing_line_def
  str_int_def str_nat.simps digit_char_def newline_def grid_row_def float_1_def float_val_def
  magnitude_def pow2_def has_velocity_def float_repr_examples

section \<open>Lines that begin with a hash sign\<close>

lemma showing_prefix: "prefix ''#'' (showing_line len t off lmt)"
  by (simp add: showing_line_def)

lemma hash_pagination:
  "[l \<leftarrow> pagination_lines len t off lmt. prefix ''#'' l] = pagination_lines len t off lmt"
  by (simp add: pagination_lines_def showing_prefix)








section \<open>The text returned for a non-empty input\<close>

lemma create_text_response_1d_lines:
  "models \<noteq> [] \<Longrightarrow>
   create_text_response_1d models bibref total_count offset limit =
     join newline (text_lines_1d models bibref total_count offset limit)"
  by (simp add: create_text_response_1d_def)














lemma response_1d_sorted_lines:
  assumes "models \<noteq> []"
  shows "create_text_response_1d models bibref total_count offset limit =
     join newline
       (title_line ''1D'' (nfo (hd models)) bibref #
        pagination_lines (length models) total_count offset limit @
        (if vp_models models = [] then []
         else vp_count_line (length (vp_models models)) #
              map (\<lambda>j. velocity_line ''P'' j (vp_models models ! j))
                [0..<length (vp_models models)]) @
        (if vs_models models = [] then []
         else vs_count_line (length (vs_models models)) #
              map (\<lambda>j. velocity_line ''S'' j (vs_models models ! j))
                [0..<length (vs_models models)]))"
  unfolding create_text_response_1d_lines [OF assms] text_lines_1d_nth ..






section \<open>The Profile Formatter\<close>




text \<open>
  Claim C4.  The code at a depth of negative zero: \<open>-0.0 < 0\<close> is false, so the line
  is built by the last branch, with 8 leading spaces, and the format \<open>4.2f\<close> writes
  the five characters \<open>-0.00\<close>.  The minus sign is kept, but the negative branch (7
  leading spaces) is not taken.
\<close>

theorem C4_negative_zero:
  "\<not> float_lt (PyFloat True 0 0) 0 \<and>
   create_text_response_1d [row_1d (PyFloat True 0 0) float_5_8 ''VP''] '''' 1 0 10000 =
     ''1D CRUST1\<newline> 1        vel,depth,vdamp,phase (f5.2,5x,f7.2,2x,f7.3,3x,a1)\<newline> 5.80        -0.00   001.000           P-VELOCITY MODEL''"
  by (simp add: eval_lines_1d eval_1d eval_fmt)

text \<open>
  Claim C5, as the code has it.  A row goes to the P-wave sublist when its wave type
  is the string \<open>VP\<close> and to the S-wave sublist when it is \<open>VS\<close>.  When every row of
  the input has one of these two wave types, the two sublists hold every row of the
  input exactly once between them, no row is in both, and their lengths add up to
  the length of the input.
\<close>

theorem C5_partition:
  assumes "\<forall>m \<in> set models. wave_type m = ''VP'' \<or> wave_type m = ''VS''"
  shows "mset (vp_models models) + mset (vs_models models) = mset models \<and>
         set (vp_models models) \<inter> set (vs_models models) = {} \<and>
         length (vp_models models) + length (vs_models models) = length models"
proof -
  from assms have all: "[m \<leftarrow> models. wave_type m = ''VP'' \<or> wave_type m = ''VS''] = models"
    by (simp add: filter_id_conv)
  have m: "mset (vp_models models) + mset (vs_models models) = mset models"
    using partition_general [of models] all by simp
  have d: "set (vp_models models) \<inter> set (vs_models models) = {}"
    unfolding vp_models_def vs_models_def sort_by_depth_def by auto
  have "size (mset (vp_models models) + mset (vs_models models)) = size (mset models)"
    using m by simp
  then have l: "length (vp_models models) + length (vs_models models) = length models"
    by simp
  from m d l show ?thesis by blast
qed

theorem C5_partition_witness:
  "list_all (\<lambda>m. wave_type m = ''VP'' \<or> wave_type m = ''VS'')
     [row_1d (PyFloat False 35 0) (PyFloat False 8 0) ''VP'',
      row_1d (PyFloat False 0 0) (PyFloat False 7 (- 1)) ''VS'',
      row_1d (PyFloat False 0 0) float_5_8 ''VP''] \<and>
   length (vp_models [row_1d (PyFloat False 35 0) (PyFloat False 8 0) ''VP'',
                      row_1d (PyFloat False 0 0) (PyFloat False 7 (- 1)) ''VS'',
                      row_1d (PyFloat False 0 0) float_5_8 ''VP'']) +
   length (vs_models [row_1d (PyFloat False 35 0) (PyFloat False 8 0) ''VP'',
                      row_1d (PyFloat False 0 0) (PyFloat False 7 (- 1)) ''VS'',
                      row_1d (PyFloat False 0 0) float_5_8 ''VP'']) = 3"
  using C5_partition [of "[row_1d (PyFloat False 35 0) (PyFloat False 8 0) ''VP'',
                           row_1d (PyFloat False 0 0) (PyFloat False 7 (- 1)) ''VS'',
                           row_1d (PyFloat False 0 0) float_5_8 ''VP'']"]
  by (simp add: row_1d_def)

text \<open>
  The claim C5 as the specification states it, for every input list, fails on a row
  whose wave type is neither \<open>VP\<close> nor \<open>VS\<close>: the row is in neither sublist.
\<close>

theorem C5_counterexample:
  "length (vp_models [row_1d (PyFloat False 5 0) (PyFloat False 6 0) ''P'']) +
   length (vs_models [row_1d (PyFloat False 5 0) (PyFloat False 6 0) ''P'']) \<noteq>
   length [row_1d (PyFloat False 5 0) (PyFloat False 6 0) ''P'']"
  by (simp add: eval_1d)

text \<open>
  Claim C7.  For a non-empty input the text returned is the title, the pagination line
  if any, and for each non-empty sublist its count line and the lines of its rows, in
  the order of the sublist.  Each sublist is in ascending order of depth, and the rows
  of one depth are in the sublist in the order in which the input has them.
\<close>

theorem C7_sorted_stable:
  assumes "models \<noteq> []"
  shows "create_text_response_1d models bibref total_count offset limit =
     join newline
       (title_line ''1D'' (nfo (hd models)) bibref #
        pagination_lines (length models) total_count offset limit @
        (if vp_models models = [] then []
         else vp_count_line (length (vp_models models)) #
              map (\<lambda>j. velocity_line ''P'' j (vp_models models ! j))
                [0..<length (vp_models models)]) @
        (if vs_models models = [] then []
         else vs_count_line (length (vs_models models)) #
              map (\<lambda>j. velocity_line ''S'' j (vs_models models ! j))
                [0..<length (vs_models models)])) \<and>
   sorted (map (\<lambda>m. float_val (depth m)) (vp_models models)) \<and>
   sorted (map (\<lambda>m. float_val (depth m)) (vs_models models)) \<and>
   (\<forall>k. [m \<leftarrow> vp_models models. float_val (depth m) = k] =
        [m \<leftarrow> models. wave_type m = ''VP'' \<and> float_val (depth m) = k]) \<and>
   (\<forall>k. [m \<leftarrow> vs_models models. float_val (depth m) = k] =
        [m \<leftarrow> models. wave_type m = ''VS'' \<and> float_val (depth m) = k])"
proof -
  have sp: "sorted (map (\<lambda>m. float_val (depth m)) (vp_models models))"
    unfolding vp_models_def sort_by_depth_def by (rule sorted_sort_key)
  have ss: "sorted (map (\<lambda>m. float_val (depth m)) (vs_models models))"
    unfolding vs_models_def sort_by_depth_def by (rule sorted_sort_key)
  have stp: "\<forall>k. [m \<leftarrow> vp_models models. float_val (depth m) = k] =
        [m \<leftarrow> models. wave_type m = ''VP'' \<and> float_val (depth m) = k]"
    unfolding vp_models_def sort_by_depth_def
    by (simp add: sort_key_stable conj_commute)
  have sts: "\<forall>k. [m \<leftarrow> vs_models models. float_val (depth m) = k] =
        [m \<leftarrow> models. wave_type m = ''VS'' \<and> float_val (depth m) = k]"
    unfolding vs_models_def sort_by_depth_def
    by (simp add: sort_key_stable conj_commute)
  from response_1d_sorted_lines [OF assms, of bibref total_count offset limit] sp ss stp sts
  show ?thesis by - (intro conjI; assumption)
qed

theorem C7_sorted_stable_witness:
  "[row_1d (PyFloat False 35 0) (PyFloat False 8 0) ''VP'',
    row_1d (PyFloat False 0 0) (PyFloat False 7 (- 1)) ''VS'',
    row_1d (PyFloat False 0 0) float_5_8 ''VP'',
    row_1d (PyFloat False 0 0) (PyFloat False 29 (- 2)) ''VP''] \<noteq> [] \<and>
   sorted (map (\<lambda>m. float_val (depth m))
     (vp_models [row_1d (PyFloat False 35 0) (PyFloat False 8 0) ''VP'',
                 row_1d (PyFloat False 0 0) (PyFloat False 7 (- 1)) ''VS'',
                 row_1d (PyFloat False 0 0) float_5_8 ''VP'',
                 row_1d (PyFloat False 0 0) (PyFloat False 29 (- 2)) ''VP''])) \<and>
   create_text_response_1d
     [row_1d (PyFloat False 35 0) (PyFloat False 8 0) ''VP'',
      row_1d (PyFloat False 0 0) (PyFloat False 7 (- 1)) ''VS'',
      row_1d (PyFloat False 0 0) float_5_8 ''VP'',
      row_1d (PyFloat False 0 0) (PyFloat False 29 (- 2)) ''VP''] '''' 4 0 10000 =
     ''1D CRUST1\<newline> 3        vel,depth,vdamp,phase (f5.2,5x,f7.2,2x,f7.3,3x,a1)\<newline> 5.80        0.00   001.000           P-VELOCITY MODEL\<newline> 7.25        0.00   001.000\<newline> 8.00       35.00   001.000\<newline> 1\<newline> 3.50        0.00   001.000           S-VELOCITY MODEL''"
proof -
  let ?ms = "[row_1d (PyFloat False 35 0) (PyFloat False 8 0) ''VP'',
              row_1d (PyFloat False 0 0) (PyFloat False 7 (- 1)) ''VS'',
              row_1d (PyFloat False 0 0) float_5_8 ''VP'',
              row_1d (PyFloat False 0 0) (PyFloat False 29 (- 2)) ''VP'']"
  have n: "?ms \<noteq> []" by simp
  note c = C7_sorted_stable [OF n, of "''''" 4 0 10000]
  note s = c [THEN conjunct2, THEN conjunct1]
  have e: "create_text_response_1d ?ms '''' 4 0 10000 =
     ''1D CRUST1\<newline> 3        vel,depth,vdamp,phase (f5.2,5x,f7.2,2x,f7.3,3x,a1)\<newline> 5.80        0.00   001.000           P-VELOCITY MODEL\<newline> 7.25        0.00   001.000\<newline> 8.00       35.00   001.000\<newline> 1\<newline> 3.50        0.00   001.000           S-VELOCITY MODEL''"
    by (simp add: eval_lines_1d eval_1d eval_fmt)
  from n s e show ?thesis by - (intro conjI; assumption)
qed


section \<open>The Grid Formatter\<close>

text \<open>
  The rule of the column-inclusion test, as \<open>model.r != 1.0\<close> decides it.  For a
  non-empty list of rows whose velocity attribute can be read, the scale-factor column
  is shown exactly when the caller's flag is true and some row's \<open>r\<close> is \<open>None\<close> or
  differs from 1.0: then the header ends with \<open>|R\<close> and every row has four
  separators; otherwise the header has no \<open>|R\<close> and every row has three.
\<close>

lemma r_column_rule:
  assumes "models \<noteq> []" and "list_all (has_velocity wt) models"
  shows "\<exists>show_r rows.
     (show_r \<longleftrightarrow>
        include_r \<and>
        (\<exists>m \<in> set models. case r (columns m) of None \<Rightarrow> True | Some x \<Rightarrow> float_val x \<noteq> 1)) \<and>
     create_text_response_3d models wt include_r bibref total_count offset limit =
       Inr (join newline
         (title_line ''3D'' (grid_nfo (columns (hd models))) bibref #
          pagination_lines (length models) total_count offset limit @
          (''Longitude|Latitude|Depth|'' @ (if wt = ''VP'' then ''Vp'' else ''Vs'') @
           (if show_r then ''|R'' else '''')) #
          rows)) \<and>
     length rows = length models \<and>
     list_all (\<lambda>row. count_list row CHR ''|'' = (if show_r then 4 else 3)) rows"
proof -
  let ?s = "include_r \<and> has_non_default_r models"
  let ?rows = "map (fields_3d wt ?s) models"
  have a: "?s \<longleftrightarrow> include_r \<and>
        (\<exists>m \<in> set models. case r (columns m) of None \<Rightarrow> True | Some x \<Rightarrow> float_val x \<noteq> 1)"
    by (simp only: has_non_default_r_iff)
  have b: "create_text_response_3d models wt include_r bibref total_count offset limit =
       Inr (join newline
         (title_line ''3D'' (grid_nfo (columns (hd models))) bibref #
          pagination_lines (length models) total_count offset limit @
          (''Longitude|Latitude|Depth|'' @ (if wt = ''VP'' then ''Vp'' else ''Vs'') @
           (if ?s then ''|R'' else '''')) #
          ?rows))"
    using create_text_response_3d_fields [OF assms] by (simp only: header_3d_eq)
  have c: "length ?rows = length models" by simp
  have d: "list_all (\<lambda>row. count_list row CHR ''|'' = (if ?s then 4 else 3)) ?rows"
    by (simp only: list_all_iff set_map ball_simps fields_3d_pipes) simp
  show ?thesis
    apply (rule exI [where x = "?s"])
    apply (rule exI [where x = "?rows"])
    apply (intro conjI)
       apply (rule a)
      apply (rule b)
     apply (rule c)
    apply (rule d)
    done
qed

lemma r_column_rule_example:
  "list_all (has_velocity ''VP'')
     [VelocityModel3D_VP (grid_row (PyFloat True 5 0) (Some float_1)),
      VelocityModel3D_VP (grid_row (PyFloat False 1 0) (Some float_1))] \<and>
   create_text_response_3d
     [VelocityModel3D_VP (grid_row (PyFloat True 5 0) (Some float_1)),
      VelocityModel3D_VP (grid_row (PyFloat False 1 0) (Some float_1))]
     ''VP'' True '''' 2 0 10000 =
     Inr ''3D ak135\<newline>Longitude|Latitude|Depth|Vp\<newline>-5.0|23.5|0.0|7.25\<newline>1.0|23.5|0.0|7.25'' \<and>
   list_all (has_velocity ''VP'')
     [VelocityModel3D_VP (grid_row (PyFloat True 5 0) (Some float_1)),
      VelocityModel3D_VP (grid_row (PyFloat False 1 0) (Some (PyFloat False 1 (- 1))))] \<and>
   create_text_response_3d
     [VelocityModel3D_VP (grid_row (PyFloat True 5 0) (Some float_1)),
      VelocityModel3D_VP (grid_row (PyFloat False 1 0) (Some (PyFloat False 1 (- 1))))]
     ''VP'' True '''' 2 0 10000 =
     Inr ''3D ak135\<newline>Longitude|Latitude|Depth|Vp|R\<newline>-5.0|23.5|0.0|7.25|1.0\<newline>1.0|23.5|0.0|7.25|0.5''"
proof -
  let ?a = "[VelocityModel3D_VP (grid_row (PyFloat True 5 0) (Some float_1)),
             VelocityModel3D_VP (grid_row (PyFloat False 1 0) (Some float_1))]"
  let ?b = "[VelocityModel3D_VP (grid_row (PyFloat True 5 0) (Some float_1)),
             VelocityModel3D_VP (grid_row (PyFloat False 1 0) (Some (PyFloat False 1 (- 1))))]"
  have na: "?a \<noteq> []" and nb: "?b \<noteq> []" by simp_all
  have ha: "list_all (has_velocity ''VP'') ?a" and hb: "list_all (has_velocity ''VP'') ?b"
    by (simp_all add: has_velocity_def)
  have ea: "create_text_response_3d ?a ''VP'' True '''' 2 0 10000 =
     Inr ''3D ak135\<newline>Longitude|Latitude|Depth|Vp\<newline>-5.0|23.5|0.0|7.25\<newline>1.0|23.5|0.0|7.25''"
    by (simp add: eval_lines_3d)
  have eb: "create_text_response_3d ?b ''VP'' True '''' 2 0 10000 =
     Inr ''3D ak135\<newline>Longitude|Latitude|Depth|Vp|R\<newline>-5.0|23.5|0.0|7.25|1.0\<newline>1.0|23.5|0.0|7.25|0.5''"
    by (simp add: eval_lines_3d)
  from r_column_rule [OF na ha, of True "''''" 2 0 10000]
    r_column_rule [OF nb hb, of True "''''" 2 0 10000] ha ea hb eb
  show ?thesis by - (intro conjI; assumption)
qed

text \<open>
  Claim C1.  The code at an input in which no row has a scale factor, with the
  caller's flag true: every row prints the default 1.0 in the R position, so no row's
  scale factor differs from the default, and yet the header ends with \<open>|R\<close> and every
  row has a fifth value.
\<close>

theorem C1_absent_r_column:
  "list_all (\<lambda>model. r (columns model) = None)
     [VelocityModel3D_VP (grid_row (PyFloat True 5 0) None),
      VelocityModel3D_VP (grid_row (PyFloat False 1 0) None)] \<and>
   create_text_response_3d
     [VelocityModel3D_VP (grid_row (PyFloat True 5 0) None),
      VelocityModel3D_VP (grid_row (PyFloat False 1 0) None)]
     ''VP'' True '''' 2 0 10000 =
     Inr ''3D ak135\<newline>Longitude|Latitude|Depth|Vp|R\<newline>-5.0|23.5|0.0|7.25|1.0\<newline>1.0|23.5|0.0|7.25|1.0''"
  by (simp add: eval_lines_3d)

text \<open>
  Claim C6.  With the caller's flag true, a row whose \<open>r\<close> is \<open>None\<close> makes the
  column-inclusion test succeed, whatever the scale factors of the other rows are: the
  header ends with \<open>|R\<close>, and the line of that row ends with \<open>|1.0\<close>.
\<close>

theorem C6_absent_r:
  assumes "models \<noteq> []" and "list_all (has_velocity wt) models"
    and "i < length models" and "r (columns (models ! i)) = None"
  shows "\<exists>rows.
     create_text_response_3d models wt True bibref total_count offset limit =
       Inr (join newline
         (title_line ''3D'' (grid_nfo (columns (hd models))) bibref #
          pagination_lines (length models) total_count offset limit @
          (''Longitude|Latitude|Depth|'' @ (if wt = ''VP'' then ''Vp'' else ''Vs'') @ ''|R'') #
          rows)) \<and>
     length rows = length models \<and>
     rows ! i =
       float_repr (longitude (columns (models ! i))) @ ''|'' @
       float_repr (latitude (columns (models ! i))) @ ''|'' @
       float_repr (grid_depth (columns (models ! i))) @ ''|'' @
       float_repr (wave_velocity (columns (models ! i))) @ ''|1.0''"
proof -
  let ?rows = "map (fields_3d wt True) models"
  have b: "create_text_response_3d models wt True bibref total_count offset limit =
       Inr (join newline
         (title_line ''3D'' (grid_nfo (columns (hd models))) bibref #
          pagination_lines (length models) total_count offset limit @
          (''Longitude|Latitude|Depth|'' @ (if wt = ''VP'' then ''Vp'' else ''Vs'') @ ''|R'') #
          ?rows))"
    using create_text_response_3d_header_R [OF assms] by (simp add: header_3d_eq)
  have c: "length ?rows = length models" by simp
  have d: "?rows ! i =
       float_repr (longitude (columns (models ! i))) @ ''|'' @
       float_repr (latitude (columns (models ! i))) @ ''|'' @
       float_repr (grid_depth (columns (models ! i))) @ ''|'' @
       float_repr (wave_velocity (columns (models ! i))) @ ''|1.0''"
    using assms(3,4) by (simp add: fields_3d_def float_1_repr)
  show ?thesis
    apply (rule exI [where x = "?rows"])
    apply (intro conjI)
      apply (rule b)
     apply (rule c)
    apply (rule d)
    done
qed

theorem C6_absent_r_witness:
  "list_all (has_velocity ''VS'')
     [VelocityModel3D_VS (grid_row (PyFloat True 5 0) None),
      VelocityModel3D_VS (grid_row (PyFloat False 1 0) (Some float_1))] \<and>
   r (columns (VelocityModel3D_VS (grid_row (PyFloat True 5 0) None))) = None \<and>
   create_text_response_3d
     [VelocityModel3D_VS (grid_row (PyFloat True 5 0) None),
      VelocityModel3D_VS (grid_row (PyFloat False 1 0) (Some float_1))]
     ''VS'' True ''Kim 2011'' 2 0 10000 =
     Inr ''3D ak135 Kim 2011\<newline>Longitude|Latitude|Depth|Vs|R\<newline>-5.0|23.5|0.0|7.25|1.0\<newline>1.0|23.5|0.0|7.25|1.0''"
proof -
  let ?a = "[VelocityModel3D_VS (grid_row (PyFloat True 5 0) None),
             VelocityModel3D_VS (grid_row (PyFloat False 1 0) (Some float_1))]"
  have n: "?a \<noteq> []" and i: "0 < length ?a" by simp_all
  have h: "list_all (has_velocity ''VS'') ?a" by (simp add: has_velocity_def)
  have a: "r (columns (?a ! 0)) = None" by (simp add: grid_row_def)
  have a': "r (columns (VelocityModel3D_VS (grid_row (PyFloat True 5 0) None))) = None"
    by (simp add: grid_row_def)
  have e: "create_text_response_3d ?a ''VS'' True ''Kim 2011'' 2 0 10000 =
     Inr ''3D ak135 Kim 2011\<newline>Longitude|Latitude|Depth|Vs|R\<newline>-5.0|23.5|0.0|7.25|1.0\<newline>1.0|23.5|0.0|7.25|1.0''"
    by (simp add: eval_lines_3d)
  from C6_absent_r [OF n h i a, of "''Kim 2011''" 2 0 10000] h a' e
  show ?thesis by - (intro conjI; assumption)
qed

section \<open>The pagination line\<close>




section \<open>The arguments are not changed\<close>

lemma insort_key_map:
  "map f (insort_key (\<lambda>i. k (f i)) x xs) = insort_key k (f x) (map f xs)"
  by (induction xs) simp_all

lemma sort_key_map: "map f (sort_key (\<lambda>i. k (f i)) xs) = sort_key k (map f xs)"
  by (induction xs) (simp_all add: insort_key_map)

lemma filter_rows:
  "map f [i \<leftarrow> xs. P (f i)] = [m \<leftarrow> map f xs. P m]"
  by (induction xs) simp_all

lemma rows_sorted:
  "map ((!) rs) (sort_key (\<lambda>i. k (rs ! i)) [m \<leftarrow> xs. P (rs ! m)]) =
     sort_key k [m \<leftarrow> map ((!) rs) xs. P m]"
  using sort_key_map [of "(!) rs" k "[m \<leftarrow> xs. P (rs ! m)]"] filter_rows [of "(!) rs" P xs]
  by simp

lemma store_1d_result:
  assumes "models < length (list_objs h)" and "list_objs h ! models \<noteq> []"
  shows "create_text_response_1d_store h models bibref total_count offset limit =
    (create_text_response_1d (rows_of h models) bibref total_count offset limit,
     h\<lparr>list_objs := list_objs h @
        [sort_key (\<lambda>i. float_val (depth (row_objs h ! i)))
           [m \<leftarrow> list_objs h ! models. wave_type (row_objs h ! m) = ''VP''],
         sort_key (\<lambda>i. float_val (depth (row_objs h ! i)))
           [m \<leftarrow> list_objs h ! models. wave_type (row_objs h ! m) = ''VS'']]\<rparr>)"
  using assms
  by (simp add: create_text_response_1d_store_def create_text_response_1d_def text_lines_1d_def
      new_list_def list_sort_def rows_of_def Let_def nth_append vp_models_def vs_models_def
      sort_by_depth_def list_update_append
      rows_sorted [where k = "\<lambda>x. float_val (depth x)" and P = "\<lambda>m. wave_type m = ''VP''"]
      rows_sorted [where k = "\<lambda>x. float_val (depth x)" and P = "\<lambda>m. wave_type m = ''VS''"])

text \<open>
  Claim C10.  After a call of the 1D formatter on a valid list reference, the row
  objects of the store are what they were, every list object that existed before the
  call holds the same references in the same order (the two sorts reorder only the two
  lists that the call has allocated), so the input list reads as the same rows in the
  same order, and the text returned is the text of the function of the rows.  The 3D
  formatter returns the store it was given.
\<close>

theorem C10_no_mutation:
  assumes "valid_list h models"
  shows "row_objs (snd (create_text_response_1d_store h models bibref total_count offset limit)) =
           row_objs h \<and>
         take (length (list_objs h))
           (list_objs (snd (create_text_response_1d_store h models bibref total_count offset limit))) =
           list_objs h \<and>
         rows_of (snd (create_text_response_1d_store h models bibref total_count offset limit)) models =
           rows_of h models \<and>
         fst (create_text_response_1d_store h models bibref total_count offset limit) =
           create_text_response_1d (rows_of h models) bibref total_count offset limit \<and>
         create_text_response_3d_store g grid_models wt include_r bibref total_count offset limit =
           (create_text_response_3d (rows_of g grid_models) wt include_r bibref total_count offset limit,
            g)"
proof (cases "list_objs h ! models = []")
  case True
  then show ?thesis
    by (simp add: create_text_response_1d_store_def create_text_response_1d_def rows_of_def
        create_text_response_3d_store_def)
next
  case False
  from assms have "models < length (list_objs h)" by (simp add: valid_list_def)
  from store_1d_result [OF this False, of bibref total_count offset limit] this
  show ?thesis
    by (simp add: rows_of_def nth_append create_text_response_3d_store_def)
qed

theorem C10_no_mutation_witness:
  "valid_list
     \<lparr>list_objs = [[0, 1]],
      row_objs = [row_1d (PyFloat False 35 0) (PyFloat False 8 0) ''VP'',
                  row_1d (PyFloat False 0 0) float_5_8 ''VP'']\<rparr> 0 \<and>
   list_objs (snd (create_text_response_1d_store
     \<lparr>list_objs = [[0, 1]],
      row_objs = [row_1d (PyFloat False 35 0) (PyFloat False 8 0) ''VP'',
                  row_1d (PyFloat False 0 0) float_5_8 ''VP'']\<rparr> 0 '''' 2 0 10000)) =
     [[0, 1], [1, 0], []] \<and>
   row_objs (snd (create_text_response_1d_store
     \<lparr>list_objs = [[0, 1]],
      row_objs = [row_1d (PyFloat False 35 0) (PyFloat False 8 0) ''VP'',
                  row_1d (PyFloat False 0 0) float_5_8 ''VP'']\<rparr> 0 '''' 2 0 10000)) =
     [row_1d (PyFloat False 35 0) (PyFloat False 8 0) ''VP'',
      row_1d (PyFloat False 0 0) float_5_8 ''VP'']"
proof -
  let ?h = "\<lparr>list_objs = [[0, 1]],
      row_objs = [row_1d (PyFloat False 35 0) (PyFloat False 8 0) ''VP'',
                  row_1d (PyFloat False 0 0) float_5_8 ''VP'']\<rparr>"
  have v: "valid_list ?h 0" by (simp add: valid_list_def)
  have e: "list_objs (snd (create_text_response_1d_store ?h 0 '''' 2 0 10000)) =
     [[0, 1], [1, 0], []]"
    by (simp add: create_text_response_1d_store_def new_list_def list_sort_def Let_def
        row_1d_def float_val_def magnitude_def pow2_def)
  from C10_no_mutation [OF v, of "''''" 2 0 10000]
  have r: "row_objs (snd (create_text_response_1d_store ?h 0 '''' 2 0 10000)) =
     [row_1d (PyFloat False 35 0) (PyFloat False 8 0) ''VP'',
      row_1d (PyFloat False 0 0) float_5_8 ''VP'']"
    by simp
  from v e r show ?thesis by - (intro conjI; assumption)
qed

section \<open>Empty input\<close>

text \<open>
  Claim C9.  For an empty list of rows both formatters return the empty string,
  whatever the reference string, the wave type, the flag and the pagination counters:
  no title, no header, no pagination line, and no exception.
\<close>

theorem C9_empty_input:
  "create_text_response_1d [] bibref total_count offset limit = '''' \<and>
   create_text_response_3d [] wave_type' include_r bibref total_count offset limit = Inr ''''"
  by (simp add: create_text_response_1d_def create_text_response_3d_def)

end
